theory Spec2Isabelle
  imports Complex_Main
begin

section \<open>Gerstner wave deformer (gerstnerWaveDeformer.py)\<close>

text \<open>
  Python floats and the host's float attributes are modelled as real numbers: the
  formulas of the source are read as exact arithmetic, and the two exceptions the
  arithmetic of \<^verbatim>\<open>gerstnerWave\<close> can raise (a float division by zero and
  \<^verbatim>\<open>math.sqrt\<close> of a negative number) are values of the type \<open>error\<close>.
\<close>

datatype error =
    ZeroDivisionError
  | ValueError
  | TypeError
  | InvalidObject nat
  | NoKeys
  | InvalidKeyIndex int

text \<open>\<^verbatim>\<open>MPoint\<close>: the position of a vertex (the homogeneous coordinate is never read).\<close>

record MPoint =
  px :: real
  py :: real
  pz :: real

text \<open>
  \<^verbatim>\<open>MFloatVector\<close> of the host. \<^verbatim>\<open>MFloatVector(a, b)\<close> leaves the third component
  at its default 0. \<^verbatim>\<open>normal()\<close> is a host function: it divides by the Euclidean
  length; for the zero vector, where there is no unit vector, the model returns the
  vector as it is.
\<close>

record MFloatVector =
  vx :: real
  vy :: real
  vz :: real

definition MFloatVector2 :: "real \<Rightarrow> real \<Rightarrow> MFloatVector" where
  "MFloatVector2 a b = \<lparr>vx = a, vy = b, vz = 0\<rparr>"

definition vlength :: "MFloatVector \<Rightarrow> real" where
  "vlength v = sqrt (vx v * vx v + vy v * vy v + vz v * vz v)"

definition normal :: "MFloatVector \<Rightarrow> MFloatVector" where
  "normal v =
     (if vlength v = 0 then v
      else \<lparr>vx = vx v / vlength v, vy = vy v / vlength v, vz = vz v / vlength v\<rparr>)"

text \<open>
  \<^verbatim>\<open>gerstnerWave(self, wave, wavelength, position, movementVal)\<close>, lines 49 to 86.
  \<open>wave\<close> is the float3 attribute (direction x, direction y, steepness).
  The divisions and the square root raise as Python's do, in the order of the source.
\<close>

definition gerstnerWave :: "real \<times> real \<times> real \<Rightarrow> real \<Rightarrow> MPoint \<Rightarrow> real \<Rightarrow> error + MPoint" where
  "gerstnerWave wave wavelength position movementVal =
     (let steepness = snd (snd wave) in
      if wavelength = 0 then Inl ZeroDivisionError
      else
        let k = 2 * pi / wavelength in
        if k = 0 then Inl ZeroDivisionError
        else if 9.8 / k < 0 then Inl ValueError
        else
          let c = sqrt (9.8 / k);
              floatVectorDirection = MFloatVector2 (fst wave) (fst (snd wave));
              d = normal floatVectorDirection;
              dotDirectionPositon = (vx d * px position) + (vy d * pz position);
              f = k * (dotDirectionPositon - c * movementVal);
              a = steepness / k
          in Inr \<lparr>px = vx d * (a * cos f), py = a * sin f, pz = vy d * (a * cos f)\<rparr>)"

text \<open>
  \<^verbatim>\<open>addToPosition(self, pointPosition, pointToAdd, evaluateVal)\<close>, lines 89 to 102:
  three assignments to the fields of \<open>pointPosition\<close>, one after the other; the
  updated point is returned, where the source mutates its argument.
\<close>

definition addToPosition :: "MPoint \<Rightarrow> MPoint \<Rightarrow> real \<Rightarrow> MPoint" where
  "addToPosition pointPosition pointToAdd evaluateVal =
     (let p1 = pointPosition\<lparr>px := px pointPosition + px pointToAdd * evaluateVal\<rparr>;
          p2 = p1\<lparr>py := py p1 + py pointToAdd * evaluateVal\<rparr>;
          p3 = p2\<lparr>pz := pz p2 + pz pointToAdd * evaluateVal\<rparr>
      in p3)"

text \<open>The values \<^verbatim>\<open>deform\<close> reads from the data block (lines 124 to 151).\<close>

record dataBlock =
  envelopeVal :: real
  movementVal :: real
  waveA_DirStpVal :: "real \<times> real \<times> real"
  waveA_WavelengthVal :: real
  waveB_DirStpVal :: "real \<times> real \<times> real"
  waveB_WavelengthVal :: real
  waveC_DirStpVal :: "real \<times> real \<times> real"
  waveC_WavelengthVal :: real

text \<open>
  The body of the while loop of \<^verbatim>\<open>deform\<close> for one vertex, lines 159 to 164.
  Each call of \<^verbatim>\<open>gerstnerWave\<close> is evaluated before the \<^verbatim>\<open>addToPosition\<close> it is an
  argument of, and reads the point as the earlier statements left it.
\<close>

definition deformPosition :: "dataBlock \<Rightarrow> MPoint \<Rightarrow> error + MPoint" where
  "deformPosition blk pointPosition =
     (case gerstnerWave (waveA_DirStpVal blk) (waveA_WavelengthVal blk) pointPosition (movementVal blk) of
        Inl e \<Rightarrow> Inl e
      | Inr addA \<Rightarrow>
          let pointPosition = addToPosition pointPosition addA (envelopeVal blk) in
          (case gerstnerWave (waveB_DirStpVal blk) (waveB_WavelengthVal blk) pointPosition (movementVal blk) of
             Inl e \<Rightarrow> Inl e
           | Inr addB \<Rightarrow>
               let pointPosition = addToPosition pointPosition addB (envelopeVal blk) in
               (case gerstnerWave (waveC_DirStpVal blk) (waveC_WavelengthVal blk) pointPosition (movementVal blk) of
                  Inl e \<Rightarrow> Inl e
                | Inr addC \<Rightarrow> Inr (addToPosition pointPosition addC (envelopeVal blk)))))"

text \<open>
  The while loop of \<^verbatim>\<open>deform\<close>, lines 157 to 168: the iterator's remaining positions,
  and the array \<^verbatim>\<open>mPointArray_meshVert\<close> the new positions are appended to. An exception
  leaves the loop and the function.
\<close>

fun deformLoop :: "dataBlock \<Rightarrow> MPoint list \<Rightarrow> MPoint list \<Rightarrow> error + MPoint list" where
  "deformLoop blk [] mPointArray_meshVert = Inr mPointArray_meshVert"
| "deformLoop blk (pointPosition # rest) mPointArray_meshVert =
     (case deformPosition blk pointPosition of
        Inl e \<Rightarrow> Inl e
      | Inr p \<Rightarrow> deformLoop blk rest (mPointArray_meshVert @ [p]))"

text \<open>
  \<^verbatim>\<open>deform\<close>, lines 105 to 171, on the positions of the geometry. The result is the
  exception raised, if any, and the positions of the geometry afterwards:
  \<^verbatim>\<open>setAllPositions\<close> (line 171) is the only write, and it is reached only when the loop
  has ended without an exception.
\<close>

definition deform :: "dataBlock \<Rightarrow> MPoint list \<Rightarrow> error option \<times> MPoint list" where
  "deform blk geometry =
     (case deformLoop blk geometry [] of
        Inl e \<Rightarrow> (Some e, geometry)
      | Inr mPointArray_meshVert \<Rightarrow> (None, mPointArray_meshVert))"

subsection \<open>The operations as the specification words them\<close>

text \<open>
  The specification's wave descriptor, and its \<open>evaluateWave\<close>, \<open>accumulate\<close> and
  \<open>deformPoint\<close>, written from its sentences; they are compared with the source's
  functions above.
\<close>

record waveDescriptor =
  dirX :: real
  dirY :: real
  steepness :: real
  wavelength :: real

definition evaluateWave :: "waveDescriptor \<Rightarrow> MPoint \<Rightarrow> real \<Rightarrow> MPoint" where
  "evaluateWave w p m =
     (let k = 2 * pi / wavelength w;
          c = sqrt (9.8 / k);
          d = normal (MFloatVector2 (dirX w) (dirY w));
          dot = vx d * px p + vy d * pz p;
          f = k * (dot - c * m);
          a = steepness w / k
      in \<lparr>px = vx d * a * cos f, py = a * sin f, pz = vy d * a * cos f\<rparr>)"

definition accumulate :: "MPoint \<Rightarrow> MPoint \<Rightarrow> real \<Rightarrow> MPoint" where
  "accumulate basePoint displacement weight =
     \<lparr>px = px basePoint + px displacement * weight,
      py = py basePoint + py displacement * weight,
      pz = pz basePoint + pz displacement * weight\<rparr>"

definition deformPoint :: "waveDescriptor list \<Rightarrow> real \<Rightarrow> real \<Rightarrow> MPoint \<Rightarrow> MPoint" where
  "deformPoint waves movement envelope p =
     foldl (\<lambda>q w. accumulate q (evaluateWave w q movement) envelope) p waves"

definition descriptor :: "real \<times> real \<times> real \<Rightarrow> real \<Rightarrow> waveDescriptor" where
  "descriptor wave wl = \<lparr>dirX = fst wave, dirY = fst (snd wave), steepness = snd (snd wave), wavelength = wl\<rparr>"

definition waveField :: "dataBlock \<Rightarrow> waveDescriptor list" where
  "waveField blk =
     [descriptor (waveA_DirStpVal blk) (waveA_WavelengthVal blk),
      descriptor (waveB_DirStpVal blk) (waveB_WavelengthVal blk),
      descriptor (waveC_DirStpVal blk) (waveC_WavelengthVal blk)]"

section \<open>Tween command (tweenMachine.py)\<close>

subsection \<open>The host's animation curves\<close>

text \<open>
  The tangent types of \<^verbatim>\<open>MFnAnimCurve\<close>. A key of an animation curve holds its time, its
  value and its two tangent types; the host keeps the keys of a curve in strictly
  increasing order of time. Times and values are real numbers.
\<close>

datatype tangentType =
    kTangentGlobal | kTangentFixed | kTangentLinear | kTangentFlat | kTangentSmooth
  | kTangentStep | kTangentSlow | kTangentFast | kTangentClamped | kTangentPlateau
  | kTangentStepNext | kTangentAuto

record key =
  keyTime :: real
  keyValue :: real
  keyInTangent :: tangentType
  keyOutTangent :: tangentType

record animCurve =
  isTimeInput :: bool
  curveKeys :: "key list"

definition keyTimes :: "animCurve \<Rightarrow> real list" where
  "keyTimes c = map keyTime (curveKeys c)"

definition wellFormed :: "animCurve \<Rightarrow> bool" where
  "wellFormed c = sorted_wrt (<) (keyTimes c)"

text \<open>
  The functions of \<^verbatim>\<open>MFnAnimCurve\<close> the command calls. They belong to the host; the
  model gives them their documented meaning on the list of keys. An index is a Python
  integer; an index that is not the index of a key makes the call raise.
  \<open>timeAt\<close> and \<open>valueAt\<close> are the host's \<^verbatim>\<open>time\<close> and \<^verbatim>\<open>value\<close>.
\<close>

definition numKeys :: "animCurve \<Rightarrow> int" where
  "numKeys c = int (length (curveKeys c))"

definition keyAt :: "animCurve \<Rightarrow> int \<Rightarrow> error + key" where
  "keyAt c i =
     (if 0 \<le> i \<and> i < numKeys c then Inr (curveKeys c ! nat i) else Inl (InvalidKeyIndex i))"

definition timeAt :: "animCurve \<Rightarrow> int \<Rightarrow> error + real" where
  "timeAt c i = (case keyAt c i of Inl e \<Rightarrow> Inl e | Inr k \<Rightarrow> Inr (keyTime k))"

definition valueAt :: "animCurve \<Rightarrow> int \<Rightarrow> error + real" where
  "valueAt c i = (case keyAt c i of Inl e \<Rightarrow> Inl e | Inr k \<Rightarrow> Inr (keyValue k))"

definition inTangentType :: "animCurve \<Rightarrow> int \<Rightarrow> error + tangentType" where
  "inTangentType c i = (case keyAt c i of Inl e \<Rightarrow> Inl e | Inr k \<Rightarrow> Inr (keyInTangent k))"

definition outTangentType :: "animCurve \<Rightarrow> int \<Rightarrow> error + tangentType" where
  "outTangentType c i = (case keyAt c i of Inl e \<Rightarrow> Inl e | Inr k \<Rightarrow> Inr (keyOutTangent k))"

text \<open>
  \<^verbatim>\<open>findClosest(time)\<close>: the index of a key whose time is closest to the given time
  (the first one, of two keys equally close); it fails on a curve without keys.
\<close>

definition findClosest :: "animCurve \<Rightarrow> real \<Rightarrow> error + int" where
  "findClosest c t =
     (if curveKeys c = [] then Inl NoKeys
      else Inr (int (arg_min_list (\<lambda>i. \<bar>keyTime (curveKeys c ! i) - t\<bar>) [0..<length (curveKeys c)])))"

text \<open>
  \<^verbatim>\<open>addKey(time, value, tangentInType, tangentOutType, change)\<close> puts the new key at its
  place in the order of time; the command calls it only when no key is set at that time.
  \<^verbatim>\<open>setValue(index, value)\<close> overwrites the value of one key.
\<close>

definition addKey :: "animCurve \<Rightarrow> real \<Rightarrow> real \<Rightarrow> tangentType \<Rightarrow> tangentType \<Rightarrow> animCurve" where
  "addKey c t v tin tout =
     c\<lparr>curveKeys :=
         takeWhile (\<lambda>k. keyTime k < t) (curveKeys c)
         @ [\<lparr>keyTime = t, keyValue = v, keyInTangent = tin, keyOutTangent = tout\<rparr>]
         @ dropWhile (\<lambda>k. keyTime k < t) (curveKeys c)\<rparr>"

definition setValue :: "animCurve \<Rightarrow> int \<Rightarrow> real \<Rightarrow> error + animCurve" where
  "setValue c i v =
     (if 0 \<le> i \<and> i < numKeys c
      then Inr (c\<lparr>curveKeys := (curveKeys c)[nat i := (curveKeys c ! nat i)\<lparr>keyValue := v\<rparr>]\<rparr>)
      else Inl (InvalidKeyIndex i))"

subsection \<open>The scene and the command object\<close>

text \<open>
  What the command reads and writes in the host: the current time, the active selection
  (whether it is empty, and the animation curve objects \<^verbatim>\<open>getAnimCurves\<close> collects from
  it into \<^verbatim>\<open>mObjArray_Anim\<close>, as handles, so that one curve may be collected twice), the
  curves behind the handles, the global tangent types, the errors displayed with
  \<^verbatim>\<open>MGlobal.displayError\<close>, and the keys recorded in the class attribute
  \<^verbatim>\<open>mAnimCurveChangeCache\<close>, which all command objects share.
\<close>

type_synonym MObject = nat

record scene =
  currentTime :: real
  activeSelectionEmpty :: bool
  animCurveObjects :: "MObject list"
  curveNodes :: "MObject \<Rightarrow> animCurve option"
  globalInTangentType :: tangentType
  globalOutTangentType :: tangentType
  displayedErrors :: "string list"
  animCurveChangeCache :: "(MObject \<times> real) list"

text \<open>
  The command object: its attribute \<^verbatim>\<open>weight\<close>, \<^verbatim>\<open>None\<close> in the class (line 46) and a
  float once \<^verbatim>\<open>argumentParser\<close> has read the flag. \<^verbatim>\<open>commandCreator\<close> makes a new object
  for each call of the command.
\<close>

record command =
  selfWeight :: "real option"

definition commandCreator :: command where
  "commandCreator = \<lparr>selfWeight = None\<rparr>"

definition displayError :: "string \<Rightarrow> scene \<Rightarrow> scene" where
  "displayError msg s = s\<lparr>displayedErrors := displayedErrors s @ [msg]\<rparr>"

subsection \<open>addKeyToAnimCurves\<close>

text \<open>How one pass of the body of the for loop ends: normally, with \<^verbatim>\<open>break\<close>, or with an exception.\<close>

datatype flow = Next scene | Break scene | Raise error scene

text \<open>
  The expression of lines 173 and 181,
  \<^verbatim>\<open>(value(i) * (1-self.weight)) + (value(j) * self.weight)\<close>, evaluated from left to right.
\<close>

definition tweenValue :: "command \<Rightarrow> animCurve \<Rightarrow> int \<Rightarrow> int \<Rightarrow> error + real" where
  "tweenValue self c i j =
     (case valueAt c i of
        Inl e \<Rightarrow> Inl e
      | Inr vi \<Rightarrow>
          (case selfWeight self of
             None \<Rightarrow> Inl TypeError
           | Some w \<Rightarrow>
               (case valueAt c j of
                  Inl e \<Rightarrow> Inl e
                | Inr vj \<Rightarrow> Inr ((vi * (1 - w)) + (vj * w)))))"

text \<open>Lines 152 to 161: the indices of the previous and the next key, or none (the \<^verbatim>\<open>else\<close> branch).\<close>

definition bracket :: "animCurve \<Rightarrow> real \<Rightarrow> int \<Rightarrow> real \<Rightarrow> (int \<times> int) option" where
  "bracket c currTime closest_ind closest_Time =
     (if closest_Time < currTime \<and> closest_ind < numKeys c - 1 then Some (closest_ind, closest_ind + 1)
      else if closest_Time > currTime \<and> closest_ind > 0 then Some (closest_ind - 1, closest_ind)
      else None)"

text \<open>Lines 164 to 170: the tangent types of the new key.\<close>

definition newKeyTangents :: "scene \<Rightarrow> animCurve \<Rightarrow> int \<Rightarrow> int \<Rightarrow> error + tangentType \<times> tangentType" where
  "newKeyTangents s c prev_Key_Ind next_Key_Ind =
     (case outTangentType c prev_Key_Ind of
        Inl e \<Rightarrow> Inl e
      | Inr new_Key_inTangent \<Rightarrow>
          (case inTangentType c next_Key_Ind of
             Inl e \<Rightarrow> Inl e
           | Inr new_Key_outTangent \<Rightarrow>
               if new_Key_inTangent = kTangentFixed \<or> new_Key_outTangent = kTangentFixed
               then Inr (globalInTangentType s, globalOutTangentType s)
               else Inr (new_Key_inTangent, new_Key_outTangent)))"

definition noBracketMessage :: string where
  "noBracketMessage =
     ''Previous or Next keyframe does not exist for this time for at least one of the animation curves.''"

text \<open>
  The body of the for loop, lines 138 to 182, for the curve behind one handle. The host
  hands out handles of existing curves only; for a handle without a curve the model raises.
\<close>

definition addKeyToAnimCurve :: "command \<Rightarrow> real \<Rightarrow> MObject \<Rightarrow> scene \<Rightarrow> flow" where
  "addKeyToAnimCurve self currTime obj s =
     (case curveNodes s obj of
        None \<Rightarrow> Raise (InvalidObject obj) s
      | Some c \<Rightarrow>
          if isTimeInput c then
            (case findClosest c currTime of
               Inl e \<Rightarrow> Raise e s
             | Inr closest_ind \<Rightarrow>
                 (case timeAt c closest_ind of
                    Inl e \<Rightarrow> Raise e s
                  | Inr closest_Time \<Rightarrow>
                      if closest_Time \<noteq> currTime then
                        (case bracket c currTime closest_ind closest_Time of
                           None \<Rightarrow> Break (displayError noBracketMessage s)
                         | Some (prev_Key_Ind, next_Key_Ind) \<Rightarrow>
                             (case newKeyTangents s c prev_Key_Ind next_Key_Ind of
                                Inl e \<Rightarrow> Raise e s
                              | Inr (new_Key_inTangent, new_Key_outTangent) \<Rightarrow>
                                  (case tweenValue self c prev_Key_Ind next_Key_Ind of
                                     Inl e \<Rightarrow> Raise e s
                                   | Inr new_Key_Value \<Rightarrow>
                                       Next (s\<lparr>curveNodes := (curveNodes s)(obj \<mapsto>
                                                   addKey c currTime new_Key_Value new_Key_inTangent new_Key_outTangent),
                                               animCurveChangeCache := animCurveChangeCache s @ [(obj, currTime)]\<rparr>))))
                      else
                        (case tweenValue self c (closest_ind - 1) (closest_ind + 1) of
                           Inl e \<Rightarrow> Raise e s
                         | Inr new_Key_Value \<Rightarrow>
                             (case setValue c closest_ind new_Key_Value of
                                Inl e \<Rightarrow> Raise e s
                              | Inr c' \<Rightarrow> Next (s\<lparr>curveNodes := (curveNodes s)(obj \<mapsto> c')\<rparr>)))))
          else Next s)"

text \<open>
  The for loop of \<^verbatim>\<open>addKeyToAnimCurves\<close>, lines 136 to 182, over the handles still to
  visit. \<^verbatim>\<open>break\<close> and an exception both leave the loop with the curves already changed
  left as they are.
\<close>

fun addKeyLoop :: "command \<Rightarrow> real \<Rightarrow> MObject list \<Rightarrow> scene \<Rightarrow> flow" where
  "addKeyLoop self currTime [] s = Next s"
| "addKeyLoop self currTime (obj # objs) s =
     (case addKeyToAnimCurve self currTime obj s of
        Next s' \<Rightarrow> addKeyLoop self currTime objs s'
      | Break s' \<Rightarrow> Break s'
      | Raise e s' \<Rightarrow> Raise e s')"

text \<open>A function that ends with \<^verbatim>\<open>break\<close> returns normally; one that raises hands the exception on.\<close>

fun returned :: "flow \<Rightarrow> error option \<times> scene" where
  "returned (Next s) = (None, s)"
| "returned (Break s) = (None, s)"
| "returned (Raise e s) = (Some e, s)"

definition addKeyToAnimCurves :: "command \<Rightarrow> MObject list \<Rightarrow> real \<Rightarrow> scene \<Rightarrow> error option \<times> scene" where
  "addKeyToAnimCurves self mObjArray_Anim currTime s = returned (addKeyLoop self currTime mObjArray_Anim s)"

subsection \<open>redoIt and doIt\<close>

text \<open>
  \<^verbatim>\<open>redoIt\<close>, lines 185 to 211. Line 190 divides the attribute \<^verbatim>\<open>weight\<close> of the command
  object by 100 and stores it back; the command object is returned with the scene.
\<close>

definition redoIt :: "command \<Rightarrow> scene \<Rightarrow> command \<times> error option \<times> scene" where
  "redoIt self s =
     (let currTime = currentTime s in
      case selfWeight self of
        None \<Rightarrow> (self, Some TypeError, s)
      | Some w \<Rightarrow>
          let self = self\<lparr>selfWeight := Some (w / 100.0)\<rparr> in
          if \<not> activeSelectionEmpty s then
            let mObjArray_Anim = animCurveObjects s in
            if length mObjArray_Anim > 0
            then (self, addKeyToAnimCurves self mObjArray_Anim currTime s)
            else (self, None, displayError ''No animated object selected'' s)
          else (self, None, displayError ''No DAG Object or Anim Curve Slected'' s))"

text \<open>
  \<^verbatim>\<open>doIt\<close>, lines 224 to 233, with \<^verbatim>\<open>argumentParser\<close>: the argument is the value of the
  weight flag, if the flag is set (the help flag only sets the result text).
\<close>

definition argumentParser :: "command \<Rightarrow> real option \<Rightarrow> command" where
  "argumentParser self weightFlag =
     (case weightFlag of None \<Rightarrow> self | Some v \<Rightarrow> self\<lparr>selfWeight := Some v\<rparr>)"

definition doIt :: "command \<Rightarrow> real option \<Rightarrow> scene \<Rightarrow> command \<times> error option \<times> scene" where
  "doIt self weightFlag s =
     (let self = argumentParser self weightFlag in
      case selfWeight self of
        None \<Rightarrow> (self, None, displayError ''Weight value is required. Should be Between 0.0 - 100.0'' s)
      | Some w \<Rightarrow>
          if w \<le> 100.0 \<and> w \<ge> 0.0 then redoIt self s
          else (self, None, displayError ''Weight value is required. Should be Between 0.0 - 100.0'' s))"

section \<open>Example inputs\<close>

text \<open>Concrete inputs on which the theorems below are instantiated.\<close>

definition origin :: MPoint where
  "origin = \<lparr>px = 0, py = 0, pz = 0\<rparr>"

definition exampleBlock :: dataBlock where
  "exampleBlock = \<lparr>envelopeVal = 1, movementVal = 0,
     waveA_DirStpVal = (1, 0, 1), waveA_WavelengthVal = 1,
     waveB_DirStpVal = (0, 1, 1), waveB_WavelengthVal = 1,
     waveC_DirStpVal = (1, 0, 0), waveC_WavelengthVal = 1\<rparr>"

definition invalidBlock :: dataBlock where
  "invalidBlock = exampleBlock\<lparr>waveB_WavelengthVal := 0\<rparr>"

definition linearKey :: "real \<Rightarrow> real \<Rightarrow> key" where
  "linearKey t v = \<lparr>keyTime = t, keyValue = v, keyInTangent = kTangentLinear, keyOutTangent = kTangentLinear\<rparr>"

definition exampleCurve :: animCurve where
  "exampleCurve = \<lparr>isTimeInput = True, curveKeys = [linearKey 0 0, linearKey 10 10, linearKey 20 20]\<rparr>"

definition fixedCurve :: animCurve where
  "fixedCurve = \<lparr>isTimeInput = True,
     curveKeys = [(linearKey 0 0)\<lparr>keyOutTangent := kTangentFixed\<rparr>, linearKey 10 10]\<rparr>"

definition exampleScene :: "real \<Rightarrow> MObject list \<Rightarrow> (MObject \<Rightarrow> animCurve option) \<Rightarrow> scene" where
  "exampleScene t objs nodes =
     \<lparr>currentTime = t, activeSelectionEmpty = False, animCurveObjects = objs, curveNodes = nodes,
      globalInTangentType = kTangentAuto, globalOutTangentType = kTangentSmooth,
      displayedErrors = [], animCurveChangeCache = []\<rparr>"

section \<open>Properties of the wave deformer\<close>

lemmas wave_eval_defs = gerstnerWave_def origin_def addToPosition_def normal_def vlength_def
  MFloatVector2_def Let_def

lemma sqrt_arg_nonneg: "0 < wl \<Longrightarrow> \<not> 9.8 / (2 * pi / wl) < (0::real)"
proof -
  assume "0 < wl"
  then have "0 \<le> 9.8 / (2 * pi / wl)" by simp
  then show ?thesis by linarith
qed

text \<open>With a positive wavelength the source's function returns what the specification's formula gives.\<close>

lemma gerstnerWave_pos:
  "0 < wl \<Longrightarrow> gerstnerWave wave wl p m = Inr (evaluateWave (descriptor wave wl) p m)"
  using sqrt_arg_nonneg [of wl]
  by (simp add: gerstnerWave_def evaluateWave_def descriptor_def Let_def del: divide_divide_eq_right)

lemma gerstnerWave_zero: "gerstnerWave wave 0 p m = Inl ZeroDivisionError"
  by (simp add: gerstnerWave_def)

lemma gerstnerWave_neg: "wl < 0 \<Longrightarrow> gerstnerWave wave wl p m = Inl ValueError"
  by (simp add: gerstnerWave_def Let_def) (simp add: divide_less_0_iff)

lemma gerstnerWave_invalid:
  "wl \<le> 0 \<Longrightarrow> gerstnerWave wave wl p m = Inl (if wl = 0 then ZeroDivisionError else ValueError)"
  using gerstnerWave_zero [of wave p m] gerstnerWave_neg [of wl wave p m] by (cases "wl = 0") auto

lemma addToPosition_accumulate: "addToPosition p d e = accumulate p d e"
  by (simp add: addToPosition_def accumulate_def Let_def)

lemma deformPosition_pos:
  "0 < waveA_WavelengthVal blk \<Longrightarrow> 0 < waveB_WavelengthVal blk \<Longrightarrow> 0 < waveC_WavelengthVal blk \<Longrightarrow>
   deformPosition blk p = Inr (deformPoint (waveField blk) (movementVal blk) (envelopeVal blk) p)"
  by (simp add: deformPosition_def gerstnerWave_pos addToPosition_accumulate deformPoint_def
      waveField_def Let_def)

lemma deformPosition_invalid:
  assumes "waveA_WavelengthVal blk \<le> 0 \<or> waveB_WavelengthVal blk \<le> 0 \<or> waveC_WavelengthVal blk \<le> 0"
  shows "deformPosition blk p = Inl ZeroDivisionError \<or> deformPosition blk p = Inl ValueError"
proof (cases "waveA_WavelengthVal blk \<le> 0")
  case True
  then show ?thesis by (simp add: deformPosition_def gerstnerWave_invalid)
next
  case A: False
  show ?thesis
  proof (cases "waveB_WavelengthVal blk \<le> 0")
    case True
    with A show ?thesis by (simp add: deformPosition_def gerstnerWave_invalid gerstnerWave_pos Let_def)
  next
    case False
    with A assms have "waveC_WavelengthVal blk \<le> 0" by simp
    with A False show ?thesis by (simp add: deformPosition_def gerstnerWave_invalid gerstnerWave_pos Let_def)
  qed
qed

lemma deformLoop_valid:
  assumes "0 < waveA_WavelengthVal blk" "0 < waveB_WavelengthVal blk" "0 < waveC_WavelengthVal blk"
  shows "deformLoop blk ps acc =
     Inr (acc @ map (deformPoint (waveField blk) (movementVal blk) (envelopeVal blk)) ps)"
  by (induction ps arbitrary: acc) (simp_all add: deformPosition_pos [OF assms])

lemma deformPosition_exampleBlock:
  "deformPosition exampleBlock origin = Inr \<lparr>px = 1 / (2 * pi), py = 0, pz = 1 / (2 * pi)\<rparr>"
  by (simp add: deformPosition_def exampleBlock_def wave_eval_defs)

lemma deformPosition_invalidBlock:
  "deformPosition invalidBlock origin = Inl ZeroDivisionError"
  by (simp add: deformPosition_def invalidBlock_def exampleBlock_def wave_eval_defs)

text \<open>
  \<^bold>\<open>C1.\<close> For every wave (dx, dy, steepness) with a wavelength above 0, every point
  and every movement value, \<open>gerstnerWave\<close> returns, without an exception, the
  displacement (d.x a cos f, a sin f, d.y a cos f), where k = 2 pi / wavelength,
  c = sqrt (9.8 / k), d is the normalised (dx, dy), the dot product pairs d.y with the
  z coordinate of the point, f = k (dot - c m) and a = steepness / k.
\<close>

theorem gerstnerWave_displacement:
  "0 < wl \<Longrightarrow>
   gerstnerWave (dx, dy, s) wl p m =
     (let k = 2 * pi / wl;
          c = sqrt (9.8 / k);
          d = normal (MFloatVector2 dx dy);
          dot = vx d * px p + vy d * pz p;
          f = k * (dot - c * m);
          a = s / k
      in Inr \<lparr>px = vx d * a * cos f, py = a * sin f, pz = vy d * a * cos f\<rparr>)"
  using sqrt_arg_nonneg [of wl]
  by (simp add: gerstnerWave_def Let_def del: divide_divide_eq_right)

theorem gerstnerWave_displacement_witness:
  "(0::real) < 1 \<and> gerstnerWave (1, 0, 1) 1 origin 0 = Inr \<lparr>px = 1 / (2 * pi), py = 0, pz = 0\<rparr>"
  using gerstnerWave_displacement [of 1 1 0 1 origin 0]
  by (simp add: origin_def normal_def vlength_def MFloatVector2_def Let_def)

text \<open>
  \<^bold>\<open>C2.\<close> With three positive wavelengths, the body of the loop of \<open>deform\<close> is the
  fold from left to right over the waves A, B, C: p1 is p plus the envelope times the
  displacement of wave A at p, p2 is p1 plus the envelope times the displacement of
  wave B at p1, p3 is p2 plus the envelope times the displacement of wave C at p2, and
  the result is p3. Each wave is evaluated by \<open>gerstnerWave\<close> at the point the earlier
  waves have displaced.
\<close>

theorem deformPosition_fold:
  assumes "0 < waveA_WavelengthVal blk" "0 < waveB_WavelengthVal blk" "0 < waveC_WavelengthVal blk"
  shows "let m = movementVal blk; e = envelopeVal blk;
             A = descriptor (waveA_DirStpVal blk) (waveA_WavelengthVal blk);
             B = descriptor (waveB_DirStpVal blk) (waveB_WavelengthVal blk);
             C = descriptor (waveC_DirStpVal blk) (waveC_WavelengthVal blk);
             p1 = accumulate p (evaluateWave A p m) e;
             p2 = accumulate p1 (evaluateWave B p1 m) e;
             p3 = accumulate p2 (evaluateWave C p2 m) e
         in deformPosition blk p = Inr p3
            \<and> p3 = deformPoint [A, B, C] m e p
            \<and> gerstnerWave (waveA_DirStpVal blk) (waveA_WavelengthVal blk) p m = Inr (evaluateWave A p m)
            \<and> gerstnerWave (waveB_DirStpVal blk) (waveB_WavelengthVal blk) p1 m = Inr (evaluateWave B p1 m)
            \<and> gerstnerWave (waveC_DirStpVal blk) (waveC_WavelengthVal blk) p2 m = Inr (evaluateWave C p2 m)"
  using assms
  by (simp add: deformPosition_pos gerstnerWave_pos deformPoint_def waveField_def Let_def)

theorem deformPosition_fold_witness:
  "0 < waveA_WavelengthVal exampleBlock \<and> 0 < waveB_WavelengthVal exampleBlock
   \<and> 0 < waveC_WavelengthVal exampleBlock
   \<and> deformPosition exampleBlock origin = Inr \<lparr>px = 1 / (2 * pi), py = 0, pz = 1 / (2 * pi)\<rparr>
   \<and> deformPoint (waveField exampleBlock) 0 1 origin = \<lparr>px = 1 / (2 * pi), py = 0, pz = 1 / (2 * pi)\<rparr>"
proof -
  have w: "0 < waveA_WavelengthVal exampleBlock" "0 < waveB_WavelengthVal exampleBlock"
    "0 < waveC_WavelengthVal exampleBlock" by (simp_all add: exampleBlock_def)
  have m: "movementVal exampleBlock = 0" "envelopeVal exampleBlock = 1" by (simp_all add: exampleBlock_def)
  show ?thesis
    using deformPosition_fold [OF w, of origin] w deformPosition_exampleBlock
    by (simp add: Let_def waveField_def m)
qed

text \<open>
  \<^bold>\<open>C4.\<close> A wavelength of 0 or below makes \<open>gerstnerWave\<close> raise (a division by zero at
  0, a domain error of the square root below 0). Nothing checks the wavelengths before
  the loop: the exception comes from the evaluation of the first vertex. So \<open>deform\<close>
  with such a wavelength, on a geometry with at least one vertex, raises and writes no
  position, and with three positive wavelengths it writes the deformed position of every
  vertex: all or nothing. On a geometry without vertices nothing is raised.
\<close>

theorem deform_all_or_nothing:
  "(wl \<le> 0 \<longrightarrow> gerstnerWave wave wl p m = Inl (if wl = 0 then ZeroDivisionError else ValueError))
   \<and> ((waveA_WavelengthVal blk \<le> 0 \<or> waveB_WavelengthVal blk \<le> 0 \<or> waveC_WavelengthVal blk \<le> 0)
        \<and> geometry \<noteq> [] \<longrightarrow>
        (fst (deform blk geometry) = Some ZeroDivisionError \<or> fst (deform blk geometry) = Some ValueError)
        \<and> snd (deform blk geometry) = geometry)
   \<and> (0 < waveA_WavelengthVal blk \<and> 0 < waveB_WavelengthVal blk \<and> 0 < waveC_WavelengthVal blk \<longrightarrow>
        deform blk geometry =
          (None, map (deformPoint (waveField blk) (movementVal blk) (envelopeVal blk)) geometry))
   \<and> deform blk [] = (None, [])"
proof (intro conjI impI)
  assume "wl \<le> 0"
  then show "gerstnerWave wave wl p m = Inl (if wl = 0 then ZeroDivisionError else ValueError)"
    by (rule gerstnerWave_invalid)
next
  assume a: "(waveA_WavelengthVal blk \<le> 0 \<or> waveB_WavelengthVal blk \<le> 0 \<or> waveC_WavelengthVal blk \<le> 0)
     \<and> geometry \<noteq> []"
  then obtain q qs where g: "geometry = q # qs" by (cases geometry) auto
  from a deformPosition_invalid [of blk q]
  have "deformPosition blk q = Inl ZeroDivisionError \<or> deformPosition blk q = Inl ValueError" by blast
  then show "fst (deform blk geometry) = Some ZeroDivisionError \<or> fst (deform blk geometry) = Some ValueError"
    and "snd (deform blk geometry) = geometry"
    by (auto simp add: deform_def g)
next
  assume "0 < waveA_WavelengthVal blk \<and> 0 < waveB_WavelengthVal blk \<and> 0 < waveC_WavelengthVal blk"
  then show "deform blk geometry =
      (None, map (deformPoint (waveField blk) (movementVal blk) (envelopeVal blk)) geometry)"
    by (simp add: deform_def deformLoop_valid)
next
  show "deform blk [] = (None, [])" by (simp add: deform_def)
qed

theorem deform_all_or_nothing_witness:
  "(- 1 :: real) \<le> 0 \<and> gerstnerWave (1, 0, 1) (- 1) origin 0 = Inl ValueError
   \<and> waveB_WavelengthVal invalidBlock \<le> 0 \<and> [origin] \<noteq> []
   \<and> deform invalidBlock [origin] = (Some ZeroDivisionError, [origin])
   \<and> 0 < waveA_WavelengthVal exampleBlock \<and> 0 < waveB_WavelengthVal exampleBlock
   \<and> 0 < waveC_WavelengthVal exampleBlock
   \<and> deform exampleBlock [origin] = (None, [\<lparr>px = 1 / (2 * pi), py = 0, pz = 1 / (2 * pi)\<rparr>])"
proof -
  have w: "0 < waveA_WavelengthVal exampleBlock" "0 < waveB_WavelengthVal exampleBlock"
    "0 < waveC_WavelengthVal exampleBlock" by (simp_all add: exampleBlock_def)
  have i: "waveB_WavelengthVal invalidBlock \<le> 0" by (simp add: invalidBlock_def)
  show ?thesis
    using deform_all_or_nothing [of "- 1" "(1, 0, 1)" origin 0 invalidBlock "[origin]"]
      deform_all_or_nothing [of 0 "(1, 0, 1)" origin 0 exampleBlock "[origin]"] w i
    by (simp add: deform_def deformPosition_exampleBlock deformPosition_invalidBlock)
qed

text \<open>
  The exception is not raised before the work on the vertices: with wave B at
  wavelength 0, \<open>deform\<close> on a geometry without vertices returns normally, and on a
  vertex wave A has been evaluated when the evaluation of wave B raises.
\<close>

theorem deform_error_inside_loop:
  "waveB_WavelengthVal invalidBlock \<le> 0
   \<and> deform invalidBlock [] = (None, [])
   \<and> gerstnerWave (waveA_DirStpVal invalidBlock) (waveA_WavelengthVal invalidBlock) origin
        (movementVal invalidBlock) = Inr \<lparr>px = 1 / (2 * pi), py = 0, pz = 0\<rparr>
   \<and> deformPosition invalidBlock origin = Inl ZeroDivisionError"
  by (simp add: deform_def deformPosition_invalidBlock)
     (simp add: invalidBlock_def exampleBlock_def wave_eval_defs)

text \<open>
  How the result of a wave changes with the point: it is another result exactly when the
  steepness is not 0 and the point has moved, along the normalised direction of the
  wave, by something that is not a whole number of wavelengths.
\<close>

lemma evaluateWave_shift:
  fixes w :: waveDescriptor
  defines "k \<equiv> 2 * pi / wavelength w"
    and "d \<equiv> normal (MFloatVector2 (dirX w) (dirY w))"
  assumes wl: "0 < wavelength w"
  shows "evaluateWave w q m \<noteq> evaluateWave w p m \<longleftrightarrow>
     steepness w \<noteq> 0 \<and>
     (\<nexists>n::int. vx d * (px q - px p) + vy d * (pz q - pz p) = of_int n * wavelength w)"
proof -
  define c where "c = sqrt (9.8 / k)"
  define a where "a = steepness w / k"
  define f where "f r = k * (vx d * px r + vy d * pz r - c * m)" for r :: MPoint
  define shift where "shift = vx d * (px q - px p) + vy d * (pz q - pz p)"
  have k: "0 < k" using wl by (simp add: k_def)
  have ev: "evaluateWave w r m = \<lparr>px = vx d * a * cos (f r), py = a * sin (f r), pz = vy d * a * cos (f r)\<rparr>" for r
    by (simp add: evaluateWave_def Let_def k_def d_def c_def a_def f_def)
  have fq: "f q = f p + k * shift" by (simp add: f_def shift_def algebra_simps)
  have period: "(\<exists>n::int. f q = f p + 2 * pi * of_int n) \<longleftrightarrow> (\<exists>n::int. shift = of_int n * wavelength w)"
  proof -
    have "k * shift = 2 * pi * of_int n \<longleftrightarrow> shift = of_int n * wavelength w" for n :: int
    proof -
      have "k * shift = 2 * pi * of_int n \<longleftrightarrow> 2 * pi * shift = 2 * pi * (of_int n * wavelength w)"
        using wl by (simp add: k_def field_simps)
      also have "\<dots> \<longleftrightarrow> shift = of_int n * wavelength w"
        using pi_gt_zero by (simp del: pi_gt_zero)
      finally show ?thesis .
    qed
    then show ?thesis by (simp add: fq)
  qed
  show ?thesis
  proof (cases "steepness w = 0")
    case True
    then show ?thesis by (simp add: ev a_def)
  next
    case s: False
    then have a: "a \<noteq> 0" using k by (simp add: a_def)
    show ?thesis
    proof (cases "\<exists>n::int. shift = of_int n * wavelength w")
      case True
      with period obtain n :: int where "f q = f p + 2 * pi * of_int n" by blast
      then have "sin (f q) = sin (f p) \<and> cos (f q) = cos (f p)"
        using sin_cos_eq_iff [of "f q" "f p"] by blast
      then have "evaluateWave w q m = evaluateWave w p m" by (simp add: ev)
      with True show ?thesis by (simp add: shift_def)
    next
      case False
      have "evaluateWave w q m \<noteq> evaluateWave w p m"
      proof
        assume eq: "evaluateWave w q m = evaluateWave w p m"
        then have sn: "sin (f q) = sin (f p)" using a by (simp add: ev)
        have "vx d \<noteq> 0 \<or> vy d \<noteq> 0"
        proof (rule ccontr)
          assume "\<not> (vx d \<noteq> 0 \<or> vy d \<noteq> 0)"
          then have "shift = of_int 0 * wavelength w" by (simp add: shift_def)
          with False show False by blast
        qed
        then have cs: "cos (f q) = cos (f p)" using eq a by (auto simp add: ev)
        from sn cs have "\<exists>n::int. f q = f p + 2 * pi * of_int n"
          using sin_cos_eq_iff [of "f q" "f p"] by blast
        with period False show False by blast
      qed
      with s False show ?thesis by (simp add: shift_def)
    qed
  qed
qed

lemma inv_two_pi_not_int: "(1::real) / (2 * pi) \<noteq> of_int n"
proof
  assume eq: "(1::real) / (2 * pi) = of_int n"
  have "0 < (1::real) / (2 * pi)" by simp
  moreover have "(1::real) / (2 * pi) < 1" using pi_ge_two by simp
  ultimately have "0 < (of_int n :: real)" "(of_int n :: real) < 1" using eq by simp_all
  then have "0 < n" "n < 1" by simp_all
  then show False by linarith
qed

text \<open>
  \<^bold>\<open>C8.\<close> Let wave A displace the point p by dA under the envelope e. Wave B (of a
  positive wavelength) evaluated at the displaced point differs from wave B evaluated
  at p exactly when the steepness of B is not 0 and the displacement, projected on the
  normalised direction of B in the horizontal plane (x with x, y with z) and scaled by
  e, is not a whole number of wavelengths of B. A displacement of A that is not zero is
  not enough.
\<close>

theorem wave_order_differs_iff:
  assumes wl: "0 < wlB" and A: "gerstnerWave waveA wlA p m = Inr dA"
  shows "gerstnerWave waveB wlB (addToPosition p dA e) m \<noteq> gerstnerWave waveB wlB p m
     \<longleftrightarrow> snd (snd waveB) \<noteq> 0 \<and>
         (\<nexists>n::int. e * (vx (normal (MFloatVector2 (fst waveB) (fst (snd waveB)))) * px dA
                        + vy (normal (MFloatVector2 (fst waveB) (fst (snd waveB)))) * pz dA)
                   = of_int n * wlB)"
proof -
  let ?w = "descriptor waveB wlB"
  have w: "0 < wavelength ?w" using wl by (simp add: descriptor_def)
  have "px (addToPosition p dA e) - px p = e * px dA" "pz (addToPosition p dA e) - pz p = e * pz dA"
    by (simp_all add: addToPosition_def Let_def)
  then show ?thesis
    using evaluateWave_shift [OF w, of "addToPosition p dA e" m p]
    by (simp add: gerstnerWave_pos [OF wl] descriptor_def algebra_simps)
qed

theorem wave_order_differs_iff_witness:
  "(0::real) < 1 \<and> gerstnerWave (1, 0, 1) 1 origin 0 = Inr \<lparr>px = 1 / (2 * pi), py = 0, pz = 0\<rparr>
   \<and> gerstnerWave (1, 0, 1) 1 (addToPosition origin \<lparr>px = 1 / (2 * pi), py = 0, pz = 0\<rparr> 1) 0
       \<noteq> gerstnerWave (1, 0, 1) 1 origin 0"
proof -
  have A: "gerstnerWave (1, 0, 1) 1 origin 0 = Inr \<lparr>px = 1 / (2 * pi), py = 0, pz = 0\<rparr>"
    by (simp add: wave_eval_defs)
  have n: "normal (MFloatVector2 1 0) = \<lparr>vx = 1, vy = 0, vz = 0\<rparr>"
    by (simp add: normal_def vlength_def MFloatVector2_def)
  show ?thesis
    using wave_order_differs_iff [of 1 "(1, 0, 1)" 1 origin 0 "\<lparr>px = 1 / (2 * pi), py = 0, pz = 0\<rparr>" "(1, 0, 1)" 1] A
      inv_two_pi_not_int
    by (simp add: n)
qed

text \<open>
  Wave A along x, of steepness 1, displaces the origin by a vector that is not zero;
  wave B along the other horizontal axis, of steepness 1, gives the same result at the
  displaced point as at the origin.
\<close>

theorem wave_order_counterexample:
  "gerstnerWave (1, 0, 1) 1 origin 0 = Inr \<lparr>px = 1 / (2 * pi), py = 0, pz = 0\<rparr>
   \<and> \<lparr>px = 1 / (2 * pi), py = 0, pz = 0\<rparr> \<noteq> origin
   \<and> gerstnerWave (0, 1, 1) 1 (addToPosition origin \<lparr>px = 1 / (2 * pi), py = 0, pz = 0\<rparr> 1) 0
     = gerstnerWave (0, 1, 1) 1 origin 0
   \<and> gerstnerWave (0, 1, 1) 1 origin 0 = Inr \<lparr>px = 0, py = 0, pz = 1 / (2 * pi)\<rparr>"
  by (simp add: wave_eval_defs)

text \<open>
  \<^bold>\<open>C10.\<close> Two points with the same x and the same z get the same result from
  \<open>gerstnerWave\<close>, for every wave, wavelength and movement value: the height of the
  point is never read, whether the call returns a displacement or raises.
\<close>

theorem gerstnerWave_height_independent:
  "px p = px q \<Longrightarrow> pz p = pz q \<Longrightarrow> gerstnerWave wave wl p m = gerstnerWave wave wl q m"
  by (simp add: gerstnerWave_def Let_def)

theorem gerstnerWave_height_independent_witness:
  "px \<lparr>px = 1, py = 2, pz = 3\<rparr> = px \<lparr>px = 1, py = 7, pz = 3\<rparr>
   \<and> pz \<lparr>px = 1, py = 2, pz = 3\<rparr> = pz \<lparr>px = 1, py = 7, pz = 3\<rparr>
   \<and> gerstnerWave (1, 0, 1) 1 \<lparr>px = 1, py = 2, pz = 3\<rparr> 0
     = gerstnerWave (1, 0, 1) 1 \<lparr>px = 1, py = 7, pz = 3\<rparr> 0"
  using gerstnerWave_height_independent
    [of "\<lparr>px = 1, py = 2, pz = 3\<rparr>" "\<lparr>px = 1, py = 7, pz = 3\<rparr>" "(1, 0, 1)" 1 0]
  by simp

section \<open>Properties of the tween command\<close>

subsection \<open>The closest key of a curve in order of time\<close>

text \<open>
  What the host's \<open>findClosest\<close> guarantees on a curve with keys: the index of a key, none
  of the other keys being closer to the time. Everything below rests on this property
  alone, not on the choice between two keys equally close: on a curve in order of time
  both choices lead the command to the same previous and next key.
\<close>

lemma findClosest_closest:
  assumes "curveKeys c \<noteq> []"
  obtains i where "findClosest c t = Inr (int i)" "i < length (curveKeys c)"
    "\<And>j. j < length (curveKeys c) \<Longrightarrow>
       \<bar>keyTime (curveKeys c ! i) - t\<bar> \<le> \<bar>keyTime (curveKeys c ! j) - t\<bar>"
proof -
  let ?f = "\<lambda>i. \<bar>keyTime (curveKeys c ! i) - t\<bar>"
  let ?xs = "[0..<length (curveKeys c)]"
  let ?i = "arg_min_list ?f ?xs"
  have ne: "?xs \<noteq> []" using assms by simp
  have 1: "findClosest c t = Inr (int ?i)" using assms by (simp add: findClosest_def)
  have 2: "?i < length (curveKeys c)" using arg_min_list_in [OF ne, of ?f] by simp
  have 3: "?f ?i \<le> ?f j" if "j < length (curveKeys c)" for j
  proof -
    have "?f ?i = Min (?f ` set ?xs)" by (rule f_arg_min_list_f [OF ne])
    also have "\<dots> \<le> ?f j" using that by (intro Min_le) auto
    finally show ?thesis .
  qed
  show thesis using that [OF 1 2] 3 by blast
qed

lemma wellFormed_nth_less:
  "wellFormed c \<Longrightarrow> i < j \<Longrightarrow> j < length (curveKeys c) \<Longrightarrow>
   keyTime (curveKeys c ! i) < keyTime (curveKeys c ! j)"
  by (simp add: wellFormed_def keyTimes_def sorted_wrt_iff_nth_less)

lemma wellFormed_nth_inj:
  "wellFormed c \<Longrightarrow> i < length (curveKeys c) \<Longrightarrow> j < length (curveKeys c) \<Longrightarrow>
   keyTime (curveKeys c ! i) = keyTime (curveKeys c ! j) \<Longrightarrow> i = j"
  by (metis wellFormed_nth_less less_irrefl linorder_neqE_nat)

lemma findClosest_exact:
  assumes wf: "wellFormed c" and i: "i < length (curveKeys c)" and t: "keyTime (curveKeys c ! i) = t"
  shows "findClosest c t = Inr (int i)"
proof -
  from i have ne: "curveKeys c \<noteq> []" by auto
  from findClosest_closest [OF ne, of t] obtain ci where
    ci: "findClosest c t = Inr (int ci)" "ci < length (curveKeys c)"
    and min: "\<And>j. j < length (curveKeys c) \<Longrightarrow>
       \<bar>keyTime (curveKeys c ! ci) - t\<bar> \<le> \<bar>keyTime (curveKeys c ! j) - t\<bar>" by blast
  from min [OF i] t have "keyTime (curveKeys c ! ci) = t" by simp
  with wellFormed_nth_inj [OF wf ci(2) i] t have "ci = i" by simp
  with ci show ?thesis by simp
qed

lemma findClosest_between:
  assumes wf: "wellFormed c" and i: "Suc i < length (curveKeys c)"
    and lo: "keyTime (curveKeys c ! i) < t" and hi: "t < keyTime (curveKeys c ! Suc i)"
  shows "findClosest c t = Inr (int i) \<or> findClosest c t = Inr (int (Suc i))"
proof -
  from i have ne: "curveKeys c \<noteq> []" by auto
  from findClosest_closest [OF ne, of t] obtain ci where
    ci: "findClosest c t = Inr (int ci)" "ci < length (curveKeys c)"
    and min: "\<And>j. j < length (curveKeys c) \<Longrightarrow>
       \<bar>keyTime (curveKeys c ! ci) - t\<bar> \<le> \<bar>keyTime (curveKeys c ! j) - t\<bar>" by blast
  have "\<not> ci < i"
  proof
    assume "ci < i"
    with wf i have "keyTime (curveKeys c ! ci) < keyTime (curveKeys c ! i)"
      by (intro wellFormed_nth_less) auto
    moreover have "\<bar>keyTime (curveKeys c ! ci) - t\<bar> \<le> \<bar>keyTime (curveKeys c ! i) - t\<bar>"
      using i by (intro min) auto
    ultimately show False using lo by linarith
  qed
  moreover have "\<not> Suc i < ci"
  proof
    assume "Suc i < ci"
    with wf ci(2) have "keyTime (curveKeys c ! Suc i) < keyTime (curveKeys c ! ci)"
      by (intro wellFormed_nth_less) auto
    moreover have "\<bar>keyTime (curveKeys c ! ci) - t\<bar> \<le> \<bar>keyTime (curveKeys c ! Suc i) - t\<bar>"
      using i by (intro min) auto
    ultimately show False using hi by linarith
  qed
  ultimately have "ci = i \<or> ci = Suc i" by linarith
  with ci show ?thesis by auto
qed

lemma findClosest_before:
  assumes wf: "wellFormed c" and ne: "curveKeys c \<noteq> []" and t: "t < keyTime (curveKeys c ! 0)"
  shows "findClosest c t = Inr 0"
proof -
  from findClosest_closest [OF ne, of t] obtain ci where
    ci: "findClosest c t = Inr (int ci)" "ci < length (curveKeys c)"
    and min: "\<And>j. j < length (curveKeys c) \<Longrightarrow>
       \<bar>keyTime (curveKeys c ! ci) - t\<bar> \<le> \<bar>keyTime (curveKeys c ! j) - t\<bar>" by blast
  have "ci = 0"
  proof (rule ccontr)
    assume "ci \<noteq> 0"
    with wf ci(2) have "keyTime (curveKeys c ! 0) < keyTime (curveKeys c ! ci)"
      by (intro wellFormed_nth_less) auto
    moreover have "\<bar>keyTime (curveKeys c ! ci) - t\<bar> \<le> \<bar>keyTime (curveKeys c ! 0) - t\<bar>"
      using ne by (intro min) auto
    ultimately show False using t by linarith
  qed
  with ci show ?thesis by simp
qed

lemma findClosest_after:
  assumes wf: "wellFormed c" and ne: "curveKeys c \<noteq> []"
    and t: "keyTime (curveKeys c ! (length (curveKeys c) - 1)) < t"
  shows "findClosest c t = Inr (int (length (curveKeys c) - 1))"
proof -
  let ?n = "length (curveKeys c) - 1"
  from ne have n: "?n < length (curveKeys c)" by simp
  from findClosest_closest [OF ne, of t] obtain ci where
    ci: "findClosest c t = Inr (int ci)" "ci < length (curveKeys c)"
    and min: "\<And>j. j < length (curveKeys c) \<Longrightarrow>
       \<bar>keyTime (curveKeys c ! ci) - t\<bar> \<le> \<bar>keyTime (curveKeys c ! j) - t\<bar>" by blast
  have "ci = ?n"
  proof (rule ccontr)
    assume "ci \<noteq> ?n"
    with ci(2) have "ci < ?n" by simp
    with wf n have "keyTime (curveKeys c ! ci) < keyTime (curveKeys c ! ?n)"
      by (intro wellFormed_nth_less) auto
    moreover have "\<bar>keyTime (curveKeys c ! ci) - t\<bar> \<le> \<bar>keyTime (curveKeys c ! ?n) - t\<bar>"
      using n by (intro min)
    ultimately show False using t by linarith
  qed
  with ci show ?thesis by simp
qed

subsection \<open>One pass of the loop\<close>

lemmas key_access_defs = numKeys_def keyAt_def timeAt_def valueAt_def inTangentType_def outTangentType_def

lemma bracket_between:
  assumes wf: "wellFormed c" and i: "Suc i < length (curveKeys c)"
    and lo: "keyTime (curveKeys c ! i) < t" and hi: "t < keyTime (curveKeys c ! Suc i)"
  obtains ci where "findClosest c t = Inr ci" "timeAt c ci = Inr (keyTime (curveKeys c ! nat ci))"
    "keyTime (curveKeys c ! nat ci) \<noteq> t"
    "bracket c t ci (keyTime (curveKeys c ! nat ci)) = Some (int i, int i + 1)"
proof -
  have n: "nat (1 + int i) = Suc i" by simp
  from findClosest_between [OF wf i lo hi] show thesis
  proof
    assume fc: "findClosest c t = Inr (int i)"
    show thesis
      by (rule that [of "int i"]) (use fc i lo hi in \<open>simp_all add: key_access_defs bracket_def\<close>)
  next
    assume fc: "findClosest c t = Inr (int (Suc i))"
    show thesis
      by (rule that [of "int (Suc i)"]) (use fc i lo hi in \<open>simp_all add: key_access_defs bracket_def n\<close>)
  qed
qed

lemma newKeyTangents_keys:
  assumes "i < length (curveKeys c)" "j < length (curveKeys c)"
  shows "newKeyTangents s c (int i) (int j) =
     Inr (if keyOutTangent (curveKeys c ! i) = kTangentFixed \<or> keyInTangent (curveKeys c ! j) = kTangentFixed
          then (globalInTangentType s, globalOutTangentType s)
          else (keyOutTangent (curveKeys c ! i), keyInTangent (curveKeys c ! j)))"
  using assms by (simp add: newKeyTangents_def key_access_defs)

lemma addKeyToAnimCurve_insert:
  assumes node: "curveNodes s obj = Some c" and ti: "isTimeInput c"
    and wf: "wellFormed c" and i: "Suc i < length (curveKeys c)"
    and lo: "keyTime (curveKeys c ! i) < t" and hi: "t < keyTime (curveKeys c ! Suc i)"
    and w: "selfWeight self = Some w"
    and tg: "newKeyTangents s c (int i) (int (Suc i)) = Inr (tin, tout)"
  shows "addKeyToAnimCurve self t obj s =
     Next (s\<lparr>curveNodes := (curveNodes s)(obj \<mapsto>
                 addKey c t
                   (keyValue (curveKeys c ! i) * (1 - w) + keyValue (curveKeys c ! Suc i) * w)
                   tin tout),
             animCurveChangeCache := animCurveChangeCache s @ [(obj, t)]\<rparr>)"
proof -
  from bracket_between [OF wf i lo hi] obtain ci where
    fc: "findClosest c t = Inr ci" and tm: "timeAt c ci = Inr (keyTime (curveKeys c ! nat ci))"
    and ne: "keyTime (curveKeys c ! nat ci) \<noteq> t"
    and br: "bracket c t ci (keyTime (curveKeys c ! nat ci)) = Some (int i, int i + 1)" by blast
  have tg': "newKeyTangents s c (int i) (int i + 1) = Inr (tin, tout)"
    using tg by (simp add: add.commute)
  have tv: "tweenValue self c (int i) (int i + 1) =
      Inr (keyValue (curveKeys c ! i) * (1 - w) + keyValue (curveKeys c ! Suc i) * w)"
    using i w by (simp add: tweenValue_def key_access_defs nat_add_distrib)
  show ?thesis
    using ne by (simp add: addKeyToAnimCurve_def node ti fc tm br tg' tv)
qed

lemma addKey_between:
  assumes wf: "wellFormed c" and i: "Suc i < length (curveKeys c)"
    and lo: "keyTime (curveKeys c ! i) < t" and hi: "t < keyTime (curveKeys c ! Suc i)"
  shows "addKey c t v tin tout =
     c\<lparr>curveKeys := take (Suc i) (curveKeys c)
          @ [\<lparr>keyTime = t, keyValue = v, keyInTangent = tin, keyOutTangent = tout\<rparr>]
          @ drop (Suc i) (curveKeys c)\<rparr>"
proof -
  let ?P = "\<lambda>k. keyTime k < t"
  have tw: "takeWhile ?P (curveKeys c) = take (Suc i) (curveKeys c)"
  proof (rule takeWhile_eq_take_P_nth)
    fix j assume j: "j < Suc i" "j < length (curveKeys c)"
    show "keyTime (curveKeys c ! j) < t"
    proof (cases "j = i")
      case True with lo show ?thesis by simp
    next
      case False
      with j have "j < i" by simp
      with wf i have "keyTime (curveKeys c ! j) < keyTime (curveKeys c ! i)"
        by (intro wellFormed_nth_less) auto
      with lo show ?thesis by simp
    qed
  next
    show "\<not> keyTime (curveKeys c ! Suc i) < t" using hi by simp
  qed
  have dw: "dropWhile ?P (curveKeys c) = drop (Suc i) (curveKeys c)"
    using i by (simp add: dropWhile_eq_drop tw)
  show ?thesis by (simp add: addKey_def tw dw)
qed

lemma addKeyToAnimCurve_update:
  assumes node: "curveNodes s obj = Some c" and ti: "isTimeInput c"
    and wf: "wellFormed c" and i: "0 < i" "Suc i < length (curveKeys c)"
    and t: "keyTime (curveKeys c ! i) = t"
    and w: "selfWeight self = Some w"
  shows "addKeyToAnimCurve self t obj s =
     Next (s\<lparr>curveNodes := (curveNodes s)(obj \<mapsto>
                 c\<lparr>curveKeys := (curveKeys c)[i := (curveKeys c ! i)
                      \<lparr>keyValue := keyValue (curveKeys c ! (i - 1)) * (1 - w)
                                   + keyValue (curveKeys c ! Suc i) * w\<rparr>]\<rparr>)\<rparr>)"
proof -
  from i have i': "i < length (curveKeys c)" by simp
  have fc: "findClosest c t = Inr (int i)" by (rule findClosest_exact [OF wf i' t])
  have tm: "timeAt c (int i) = Inr t" using i' t by (simp add: key_access_defs)
  have tv: "tweenValue self c (int i - 1) (int i + 1) =
      Inr (keyValue (curveKeys c ! (i - 1)) * (1 - w) + keyValue (curveKeys c ! Suc i) * w)"
    using i w by (simp add: tweenValue_def key_access_defs nat_add_distrib nat_diff_distrib)
  have sv: "setValue c (int i) v = Inr (c\<lparr>curveKeys := (curveKeys c)[i := (curveKeys c ! i)\<lparr>keyValue := v\<rparr>]\<rparr>)" for v
    using i' by (simp add: setValue_def numKeys_def)
  show ?thesis
    by (simp add: addKeyToAnimCurve_def node ti fc tm tv sv)
qed

lemma addKeyToAnimCurve_boundary:
  assumes node: "curveNodes s obj = Some c" and ti: "isTimeInput c"
    and wf: "wellFormed c" and i: "i < length (curveKeys c)"
    and t: "keyTime (curveKeys c ! i) = t"
    and b: "i = 0 \<or> Suc i = length (curveKeys c)"
    and w: "selfWeight self = Some w"
  shows "addKeyToAnimCurve self t obj s =
     Raise (InvalidKeyIndex (if i = 0 then - 1 else int i + 1)) s"
proof -
  have fc: "findClosest c t = Inr (int i)" by (rule findClosest_exact [OF wf i t])
  have tm: "timeAt c (int i) = Inr t" using i t by (simp add: key_access_defs)
  have tv: "tweenValue self c (int i - 1) (int i + 1) =
      Inl (InvalidKeyIndex (if i = 0 then - 1 else int i + 1))"
    using i b w by (auto simp add: tweenValue_def key_access_defs nat_add_distrib nat_diff_distrib)
  show ?thesis
    by (simp add: addKeyToAnimCurve_def node ti fc tm tv)
qed

lemma addKeyToAnimCurve_outside:
  assumes node: "curveNodes s obj = Some c" and ti: "isTimeInput c"
    and wf: "wellFormed c" and ne: "curveKeys c \<noteq> []"
    and out: "t < keyTime (curveKeys c ! 0) \<or> keyTime (curveKeys c ! (length (curveKeys c) - 1)) < t"
  shows "addKeyToAnimCurve self t obj s = Break (displayError noBracketMessage s)"
  using out
proof
  assume t: "t < keyTime (curveKeys c ! 0)"
  have fc: "findClosest c t = Inr 0" by (rule findClosest_before [OF wf ne t])
  have tm: "timeAt c 0 = Inr (keyTime (curveKeys c ! 0))" using ne by (simp add: key_access_defs)
  have br: "bracket c t 0 (keyTime (curveKeys c ! 0)) = None" using t by (simp add: bracket_def)
  show ?thesis using t by (simp add: addKeyToAnimCurve_def node ti fc tm br)
next
  define n where "n = length (curveKeys c) - 1"
  assume "keyTime (curveKeys c ! (length (curveKeys c) - 1)) < t"
  then have t: "keyTime (curveKeys c ! n) < t" by (simp add: n_def)
  have fc: "findClosest c t = Inr (int n)"
    using findClosest_after [OF wf ne] t by (simp add: n_def)
  have tm: "timeAt c (int n) = Inr (keyTime (curveKeys c ! n))"
    using ne by (simp add: key_access_defs n_def)
  have br: "bracket c t (int n) (keyTime (curveKeys c ! n)) = None"
    using t ne by (simp add: bracket_def numKeys_def n_def)
  show ?thesis using t by (simp add: addKeyToAnimCurve_def node ti fc tm br)
qed

lemma addKeyLoop_append:
  "addKeyLoop self t (xs @ ys) s =
     (case addKeyLoop self t xs s of Next s' \<Rightarrow> addKeyLoop self t ys s' | Break s' \<Rightarrow> Break s' | Raise e s' \<Rightarrow> Raise e s')"
  by (induction xs arbitrary: s) (auto split: flow.splits)

subsection \<open>The command\<close>

lemma doIt_eq:
  assumes "0 \<le> w" "w \<le> 100" "\<not> activeSelectionEmpty s" "animCurveObjects s \<noteq> []"
  shows "doIt self (Some w) s =
     (self\<lparr>selfWeight := Some (w / 100)\<rparr>,
      returned (addKeyLoop (self\<lparr>selfWeight := Some (w / 100)\<rparr>) (currentTime s) (animCurveObjects s) s))"
  using assms by (simp add: doIt_def argumentParser_def redoIt_def addKeyToAnimCurves_def Let_def)

lemma addKeyLoop_reach:
  assumes "addKeyLoop self t pre s = Next s1"
  shows "addKeyLoop self t (pre @ obj # rest) s =
     (case addKeyToAnimCurve self t obj s1 of
        Next s' \<Rightarrow> addKeyLoop self t rest s' | Break s' \<Rightarrow> Break s' | Raise e s' \<Rightarrow> Raise e s')"
  using assms by (simp add: addKeyLoop_append)

lemmas example_defs = exampleScene_def exampleCurve_def fixedCurve_def linearKey_def

lemma wellFormed_exampleCurve: "wellFormed exampleCurve"
  by (simp add: wellFormed_def keyTimes_def example_defs)

lemma wellFormed_fixedCurve: "wellFormed fixedCurve"
  by (simp add: wellFormed_def keyTimes_def example_defs)

text \<open>
  \<^bold>\<open>C3.\<close> The command is called with a weight w between 0 and 100, and the loop reaches
  a curve whose keys are in order of time (the curves before it in the batch have ended
  normally). If the current time lies between two neighbouring keys, the key added has
  the value vPrev (1 - w/100) + vNext (w/100) of these two keys; if a key that is neither
  the first nor the last is set at the current time, its value becomes
  vPrev (1 - w/100) + vNext (w/100) of the keys before and after it. The weight is
  divided by 100 once, before the loop. With keys at 0, 10, 20 of values 0, 10, 20 and
  w = 50, time 5 adds a key of value 5 and time 10 sets the key of index 1 to 10.
\<close>

theorem tween_value_percentage:
  assumes w: "0 \<le> w" "w \<le> 100"
    and sel: "\<not> activeSelectionEmpty s" "animCurveObjects s = pre @ obj # rest"
    and pre: "addKeyLoop (self\<lparr>selfWeight := Some (w / 100)\<rparr>) (currentTime s) pre s = Next s1"
    and node: "curveNodes s1 obj = Some c" "isTimeInput c" "wellFormed c"
    and i: "Suc i < length (curveKeys c)"
  shows "(keyTime (curveKeys c ! i) < currentTime s \<and> currentTime s < keyTime (curveKeys c ! Suc i)
          \<and> newKeyTangents s1 c (int i) (int (Suc i)) = Inr (tin, tout) \<longrightarrow>
          doIt self (Some w) s =
            (self\<lparr>selfWeight := Some (w / 100)\<rparr>,
             returned (addKeyLoop (self\<lparr>selfWeight := Some (w / 100)\<rparr>) (currentTime s) rest
               (s1\<lparr>curveNodes := (curveNodes s1)(obj \<mapsto>
                      addKey c (currentTime s)
                        (keyValue (curveKeys c ! i) * (1 - w / 100) + keyValue (curveKeys c ! Suc i) * (w / 100))
                        tin tout),
                    animCurveChangeCache := animCurveChangeCache s1 @ [(obj, currentTime s)]\<rparr>))))
       \<and> (0 < i \<and> keyTime (curveKeys c ! i) = currentTime s \<longrightarrow>
          doIt self (Some w) s =
            (self\<lparr>selfWeight := Some (w / 100)\<rparr>,
             returned (addKeyLoop (self\<lparr>selfWeight := Some (w / 100)\<rparr>) (currentTime s) rest
               (s1\<lparr>curveNodes := (curveNodes s1)(obj \<mapsto>
                      c\<lparr>curveKeys := (curveKeys c)[i := (curveKeys c ! i)
                           \<lparr>keyValue := keyValue (curveKeys c ! (i - 1)) * (1 - w / 100)
                                        + keyValue (curveKeys c ! Suc i) * (w / 100)\<rparr>]\<rparr>)\<rparr>))))"
proof -
  let ?self = "self\<lparr>selfWeight := Some (w / 100)\<rparr>"
  have sw: "selfWeight ?self = Some (w / 100)" by simp
  have d: "doIt self (Some w) s =
     (?self, returned (addKeyLoop ?self (currentTime s) (pre @ obj # rest) s))"
    using doIt_eq [OF w sel(1), of self] sel(2) by simp
  note r = addKeyLoop_reach [OF pre, of obj rest]
  show ?thesis
  proof (intro conjI impI)
    assume a: "keyTime (curveKeys c ! i) < currentTime s \<and> currentTime s < keyTime (curveKeys c ! Suc i)
          \<and> newKeyTangents s1 c (int i) (int (Suc i)) = Inr (tin, tout)"
    then have lo: "keyTime (curveKeys c ! i) < currentTime s"
      and hi: "currentTime s < keyTime (curveKeys c ! Suc i)"
      and tg: "newKeyTangents s1 c (int i) (int (Suc i)) = Inr (tin, tout)" by simp_all
    show "doIt self (Some w) s =
            (?self,
             returned (addKeyLoop ?self (currentTime s) rest
               (s1\<lparr>curveNodes := (curveNodes s1)(obj \<mapsto>
                      addKey c (currentTime s)
                        (keyValue (curveKeys c ! i) * (1 - w / 100) + keyValue (curveKeys c ! Suc i) * (w / 100))
                        tin tout),
                    animCurveChangeCache := animCurveChangeCache s1 @ [(obj, currentTime s)]\<rparr>)))"
      unfolding d r addKeyToAnimCurve_insert [OF node i lo hi sw tg] by simp
  next
    assume a: "0 < i \<and> keyTime (curveKeys c ! i) = currentTime s"
    then have i0: "0 < i" and t: "keyTime (curveKeys c ! i) = currentTime s" by simp_all
    show "doIt self (Some w) s =
            (?self,
             returned (addKeyLoop ?self (currentTime s) rest
               (s1\<lparr>curveNodes := (curveNodes s1)(obj \<mapsto>
                      c\<lparr>curveKeys := (curveKeys c)[i := (curveKeys c ! i)
                           \<lparr>keyValue := keyValue (curveKeys c ! (i - 1)) * (1 - w / 100)
                                        + keyValue (curveKeys c ! Suc i) * (w / 100)\<rparr>]\<rparr>)\<rparr>)))"
      unfolding d r addKeyToAnimCurve_update [OF node i0 i t sw] by simp
  qed
qed

theorem tween_value_percentage_witness:
  "(0::real) \<le> 50 \<and> (50::real) \<le> 100
   \<and> doIt commandCreator (Some 50) (exampleScene 5 [0] [0 \<mapsto> exampleCurve]) =
       (\<lparr>selfWeight = Some (1 / 2)\<rparr>, None,
        exampleScene 5 [0]
          [0 \<mapsto> exampleCurve\<lparr>curveKeys := [linearKey 0 0, linearKey 5 5, linearKey 10 10, linearKey 20 20]\<rparr>]
          \<lparr>animCurveChangeCache := [(0, 5)]\<rparr>)
   \<and> doIt commandCreator (Some 50) (exampleScene 10 [0] [0 \<mapsto> exampleCurve]) =
       (\<lparr>selfWeight = Some (1 / 2)\<rparr>, None,
        exampleScene 10 [0]
          [0 \<mapsto> exampleCurve\<lparr>curveKeys := [linearKey 0 0, linearKey 10 10, linearKey 20 20]\<rparr>])"
proof -
  let ?s5 = "exampleScene 5 [0] [0 \<mapsto> exampleCurve]"
  let ?s10 = "exampleScene 10 [0] [0 \<mapsto> exampleCurve]"
  have w: "(0::real) \<le> 50" "(50::real) \<le> 100" by simp_all
  have tg: "newKeyTangents ?s5 exampleCurve (int 0) (int (Suc 0)) = Inr (kTangentLinear, kTangentLinear)"
    by (simp add: newKeyTangents_def key_access_defs example_defs)
  have a: "doIt commandCreator (Some 50) ?s5 =
       (\<lparr>selfWeight = Some (1 / 2)\<rparr>, None,
        exampleScene 5 [0]
          [0 \<mapsto> exampleCurve\<lparr>curveKeys := [linearKey 0 0, linearKey 5 5, linearKey 10 10, linearKey 20 20]\<rparr>]
          \<lparr>animCurveChangeCache := [(0, 5)]\<rparr>)"
    using tween_value_percentage [of 50 ?s5 "[]" 0 "[]" commandCreator ?s5 exampleCurve 0 kTangentLinear kTangentLinear]
      wellFormed_exampleCurve tg
    by (simp add: example_defs commandCreator_def addKey_def)
  have b: "doIt commandCreator (Some 50) ?s10 =
       (\<lparr>selfWeight = Some (1 / 2)\<rparr>, None,
        exampleScene 10 [0]
          [0 \<mapsto> exampleCurve\<lparr>curveKeys := [linearKey 0 0, linearKey 10 10, linearKey 20 20]\<rparr>])"
    using tween_value_percentage [of 50 ?s10 "[]" 0 "[]" commandCreator ?s10 exampleCurve 1]
      wellFormed_exampleCurve
    by (simp add: example_defs commandCreator_def)
  show ?thesis using w a b by simp
qed

text \<open>
  \<^bold>\<open>C5.\<close> The loop reaches a curve on time with keys in order, and the current time is
  before its first key or after its last key (so no key is set at that time). Then the
  error message is displayed and the loop is left: the curves after it in the batch are
  not visited, whatever they are, and the curves before it keep what the loop did to them.
\<close>

theorem missing_bracket_halts_batch:
  assumes pre: "addKeyLoop self t pre s = Next s1"
    and node: "curveNodes s1 obj = Some c" "isTimeInput c" "wellFormed c" "curveKeys c \<noteq> []"
    and out: "t < keyTime (curveKeys c ! 0) \<or> keyTime (curveKeys c ! (length (curveKeys c) - 1)) < t"
  shows "addKeyLoop self t (pre @ obj # rest) s = Break (displayError noBracketMessage s1)
     \<and> addKeyToAnimCurves self (pre @ obj # rest) t s = (None, displayError noBracketMessage s1)"
  by (simp add: addKeyToAnimCurves_def addKeyLoop_reach [OF pre]
      addKeyToAnimCurve_outside [OF node out])

theorem missing_bracket_halts_batch_witness:
  "addKeyToAnimCurves \<lparr>selfWeight = Some (1 / 2)\<rparr> [0, 1] 25
       (exampleScene 25 [0, 1] [0 \<mapsto> exampleCurve, 1 \<mapsto> exampleCurve]) =
     (None, exampleScene 25 [0, 1] [0 \<mapsto> exampleCurve, 1 \<mapsto> exampleCurve]
              \<lparr>displayedErrors := [noBracketMessage]\<rparr>)
   \<and> addKeyToAnimCurves \<lparr>selfWeight = Some (1 / 2)\<rparr> [0, 1] (- 5)
       (exampleScene (- 5) [0, 1] [0 \<mapsto> exampleCurve, 1 \<mapsto> exampleCurve]) =
     (None, exampleScene (- 5) [0, 1] [0 \<mapsto> exampleCurve, 1 \<mapsto> exampleCurve]
              \<lparr>displayedErrors := [noBracketMessage]\<rparr>)"
proof -
  let ?n = "[0 \<mapsto> exampleCurve, 1 \<mapsto> exampleCurve]"
  have ne: "curveKeys exampleCurve \<noteq> []" "isTimeInput exampleCurve" by (simp_all add: exampleCurve_def)
  have a: "keyTime (curveKeys exampleCurve ! (length (curveKeys exampleCurve) - 1)) < 25"
    by (simp add: example_defs)
  have b: "- 5 < keyTime (curveKeys exampleCurve ! 0)" by (simp add: example_defs)
  show ?thesis
    using missing_bracket_halts_batch [of "\<lparr>selfWeight = Some (1 / 2)\<rparr>" 25 "[]" "exampleScene 25 [0, 1] ?n" _ 0 exampleCurve "[1]"]
      missing_bracket_halts_batch [of "\<lparr>selfWeight = Some (1 / 2)\<rparr>" "- 5" "[]" "exampleScene (- 5) [0, 1] ?n" _ 0 exampleCurve "[1]"]
      wellFormed_exampleCurve ne a b
    by (simp add: exampleScene_def displayError_def)
qed

text \<open>
  \<^bold>\<open>C6.\<close> The loop reaches a curve that has a key at the current time, and this key is
  the first or the last of the curve. Then no value is computed and none is written:
  reading the value of the missing neighbour (index -1, or the number of keys) raises,
  the exception leaves the command, and the scene is as it was when the curve was reached.
\<close>

theorem update_at_boundary_raises:
  assumes pre: "addKeyLoop self t pre s = Next s1"
    and node: "curveNodes s1 obj = Some c" "isTimeInput c" "wellFormed c"
    and i: "i < length (curveKeys c)" and t: "keyTime (curveKeys c ! i) = t"
    and b: "i = 0 \<or> Suc i = length (curveKeys c)"
    and w: "selfWeight self = Some w"
  shows "addKeyToAnimCurve self t obj s1 = Raise (InvalidKeyIndex (if i = 0 then - 1 else int i + 1)) s1
     \<and> addKeyToAnimCurves self (pre @ obj # rest) t s =
         (Some (InvalidKeyIndex (if i = 0 then - 1 else int i + 1)), s1)"
  by (simp add: addKeyToAnimCurves_def addKeyLoop_reach [OF pre]
      addKeyToAnimCurve_boundary [OF node i t b w])

theorem update_at_boundary_raises_witness:
  "addKeyToAnimCurves \<lparr>selfWeight = Some (1 / 2)\<rparr> [0] 0 (exampleScene 0 [0] [0 \<mapsto> exampleCurve]) =
     (Some (InvalidKeyIndex (- 1)), exampleScene 0 [0] [0 \<mapsto> exampleCurve])
   \<and> addKeyToAnimCurves \<lparr>selfWeight = Some (1 / 2)\<rparr> [0] 20 (exampleScene 20 [0] [0 \<mapsto> exampleCurve]) =
     (Some (InvalidKeyIndex 3), exampleScene 20 [0] [0 \<mapsto> exampleCurve])"
proof -
  let ?n = "[0 \<mapsto> exampleCurve]"
  have ne: "isTimeInput exampleCurve" by (simp add: exampleCurve_def)
  show ?thesis
    using update_at_boundary_raises [of "\<lparr>selfWeight = Some (1 / 2)\<rparr>" 0 "[]" "exampleScene 0 [0] ?n" _ 0 exampleCurve 0 "1 / 2" "[]"]
      update_at_boundary_raises [of "\<lparr>selfWeight = Some (1 / 2)\<rparr>" 20 "[]" "exampleScene 20 [0] ?n" _ 0 exampleCurve 2 "1 / 2" "[]"]
      wellFormed_exampleCurve ne
    by (simp add: example_defs)
qed

text \<open>
  \<^bold>\<open>C7.\<close> When a key is added between two neighbouring keys, its in-tangent type is
  the out-tangent type of the key before and its out-tangent type is the in-tangent type
  of the key after, unless one of the two is \<open>kTangentFixed\<close>: then both are the global
  in-tangent and out-tangent types of the host. The key is put between the two.
\<close>

theorem new_key_tangents:
  assumes node: "curveNodes s obj = Some c" "isTimeInput c" "wellFormed c"
    and i: "Suc i < length (curveKeys c)"
    and lo: "keyTime (curveKeys c ! i) < t" and hi: "t < keyTime (curveKeys c ! Suc i)"
    and w: "selfWeight self = Some w"
  shows "let prevKey = curveKeys c ! i; nextKey = curveKeys c ! Suc i;
             fixed = (keyOutTangent prevKey = kTangentFixed \<or> keyInTangent nextKey = kTangentFixed);
             newKey = \<lparr>keyTime = t,
                       keyValue = keyValue prevKey * (1 - w) + keyValue nextKey * w,
                       keyInTangent = (if fixed then globalInTangentType s else keyOutTangent prevKey),
                       keyOutTangent = (if fixed then globalOutTangentType s else keyInTangent nextKey)\<rparr>
         in addKeyToAnimCurve self t obj s =
              Next (s\<lparr>curveNodes := (curveNodes s)(obj \<mapsto>
                          c\<lparr>curveKeys := take (Suc i) (curveKeys c) @ [newKey] @ drop (Suc i) (curveKeys c)\<rparr>),
                      animCurveChangeCache := animCurveChangeCache s @ [(obj, t)]\<rparr>)"
proof -
  from i have i': "i < length (curveKeys c)" by simp
  note tg = newKeyTangents_keys [OF i' i, of s]
  show ?thesis
  proof (cases "keyOutTangent (curveKeys c ! i) = kTangentFixed \<or> keyInTangent (curveKeys c ! Suc i) = kTangentFixed")
    case True
    with tg have "newKeyTangents s c (int i) (int (Suc i)) = Inr (globalInTangentType s, globalOutTangentType s)"
      by simp
    from addKeyToAnimCurve_insert [OF node i lo hi w this] True
    show ?thesis by (simp add: Let_def addKey_between [OF node(3) i lo hi])
  next
    case False
    with tg have "newKeyTangents s c (int i) (int (Suc i)) =
        Inr (keyOutTangent (curveKeys c ! i), keyInTangent (curveKeys c ! Suc i))"
      by simp
    from addKeyToAnimCurve_insert [OF node i lo hi w this] False
    show ?thesis by (simp add: Let_def addKey_between [OF node(3) i lo hi])
  qed
qed

theorem new_key_tangents_witness:
  "addKeyToAnimCurve \<lparr>selfWeight = Some (1 / 2)\<rparr> 5 0 (exampleScene 5 [0] [0 \<mapsto> fixedCurve]) =
     Next (exampleScene 5 [0]
             [0 \<mapsto> fixedCurve\<lparr>curveKeys :=
                 [(linearKey 0 0)\<lparr>keyOutTangent := kTangentFixed\<rparr>,
                  \<lparr>keyTime = 5, keyValue = 5, keyInTangent = kTangentAuto, keyOutTangent = kTangentSmooth\<rparr>,
                  linearKey 10 10]\<rparr>]
             \<lparr>animCurveChangeCache := [(0, 5)]\<rparr>)
   \<and> addKeyToAnimCurve \<lparr>selfWeight = Some (1 / 2)\<rparr> 15 0 (exampleScene 15 [0] [0 \<mapsto> exampleCurve]) =
     Next (exampleScene 15 [0]
             [0 \<mapsto> exampleCurve\<lparr>curveKeys :=
                 [linearKey 0 0, linearKey 10 10,
                  \<lparr>keyTime = 15, keyValue = 15, keyInTangent = kTangentLinear, keyOutTangent = kTangentLinear\<rparr>,
                  linearKey 20 20]\<rparr>]
             \<lparr>animCurveChangeCache := [(0, 15)]\<rparr>)"
proof -
  have ne: "isTimeInput fixedCurve" "isTimeInput exampleCurve" by (simp_all add: example_defs)
  show ?thesis
    using new_key_tangents [of "exampleScene 5 [0] [0 \<mapsto> fixedCurve]" 0 fixedCurve 0 5 "\<lparr>selfWeight = Some (1 / 2)\<rparr>" "1 / 2"]
      new_key_tangents [of "exampleScene 15 [0] [0 \<mapsto> exampleCurve]" 0 exampleCurve 1 15 "\<lparr>selfWeight = Some (1 / 2)\<rparr>" "1 / 2"]
      wellFormed_fixedCurve wellFormed_exampleCurve ne
    by (simp add: example_defs Let_def)
qed

lemmas host_defs = key_access_defs findClosest_def addKey_def setValue_def
lemmas cmd_defs = doIt_def argumentParser_def redoIt_def addKeyToAnimCurves_def addKeyToAnimCurve_def
  tweenValue_def bracket_def newKeyTangents_def displayError_def commandCreator_def

lemma upt_0_3: "[0..<3] = [0, 1, 2]" by (simp add: upt_rec)
lemma upt_0_4: "[0..<4] = [0, 1, 2, 3]" by (simp add: upt_rec)

text \<open>
  \<^bold>\<open>C9.\<close> \<open>redoIt\<close> stores the divided weight back in the command object, so a second
  \<open>redoIt\<close> of the same object divides again. With keys at 0, 10, 20 of values 0, 10, 20,
  weight 50 and time 5: the first execution adds a key of value 5; the second, on the
  curve as it was at first (after an undo), adds a key of value 1/20, and on the curve
  the first execution left, sets the key at time 5 to 1/20.
\<close>

theorem redoIt_not_idempotent:
  "doIt commandCreator (Some 50) (exampleScene 5 [0] [0 \<mapsto> exampleCurve]) =
     (\<lparr>selfWeight = Some (1 / 2)\<rparr>, None,
      exampleScene 5 [0]
        [0 \<mapsto> exampleCurve\<lparr>curveKeys := [linearKey 0 0, linearKey 5 5, linearKey 10 10, linearKey 20 20]\<rparr>]
        \<lparr>animCurveChangeCache := [(0, 5)]\<rparr>)
   \<and> redoIt \<lparr>selfWeight = Some (1 / 2)\<rparr> (exampleScene 5 [0] [0 \<mapsto> exampleCurve]) =
     (\<lparr>selfWeight = Some (1 / 200)\<rparr>, None,
      exampleScene 5 [0]
        [0 \<mapsto> exampleCurve\<lparr>curveKeys := [linearKey 0 0, linearKey 5 (1 / 20), linearKey 10 10, linearKey 20 20]\<rparr>]
        \<lparr>animCurveChangeCache := [(0, 5)]\<rparr>)
   \<and> redoIt \<lparr>selfWeight = Some (1 / 2)\<rparr>
       (exampleScene 5 [0]
         [0 \<mapsto> exampleCurve\<lparr>curveKeys := [linearKey 0 0, linearKey 5 5, linearKey 10 10, linearKey 20 20]\<rparr>]
         \<lparr>animCurveChangeCache := [(0, 5)]\<rparr>) =
     (\<lparr>selfWeight = Some (1 / 200)\<rparr>, None,
      exampleScene 5 [0]
        [0 \<mapsto> exampleCurve\<lparr>curveKeys := [linearKey 0 0, linearKey 5 (1 / 20), linearKey 10 10, linearKey 20 20]\<rparr>]
        \<lparr>animCurveChangeCache := [(0, 5)]\<rparr>)"
  by (simp add: cmd_defs host_defs example_defs upt_0_3 upt_0_4 Let_def)

end
